theory Spec2Isabelle
  imports Main "HOL-Library.Sublist"
begin

section \<open>Dynamic values and maps\<close>

text \<open>
  The Go code passes wire payloads around as \<^verbatim>\<open>map[string]any\<close>. A value of type
  \<^verbatim>\<open>any\<close> is modelled by its dynamic type and contents. What \<^verbatim>\<open>encoding/json\<close>
  decodes into an \<^verbatim>\<open>any\<close> is one of: untyped nil, bool, float64, string,
  \<^verbatim>\<open>[]any\<close>, \<^verbatim>\<open>map[string]any\<close>. The engine itself also stores Go ints and string
  pointers in such maps, so these dynamic types are constructors too. In values the
  engine builds to be written out, a typed slice is a \<open>VSlice\<close>, a named string type
  is a \<open>VString\<close> and a nil map is \<open>VNil\<close>: \<^verbatim>\<open>json.Marshal\<close> encodes them alike,
  and the engine never reads back a value it has built. The type of float64 numbers is
  a parameter of the model.

  A Go map is an association list read with \<open>map_of\<close>; a map literal lists its keys in
  the order of the source text.
\<close>

datatype 'n any =
    VNil
  | VBool bool
  | VFloat64 'n
  | VString string
  | VSlice "'n any list"
  | VMap "(string \<times> 'n any) list"
  | VInt int
  | VStringPtr "string option"

type_synonym 'n gomap = "(string \<times> 'n any) list"

text \<open>The values \<^verbatim>\<open>json.Unmarshal\<close> can produce.\<close>

fun json_decoded :: "'n any \<Rightarrow> bool" where
  "json_decoded VNil = True"
| "json_decoded (VBool b) = True"
| "json_decoded (VFloat64 x) = True"
| "json_decoded (VString s) = True"
| "json_decoded (VSlice xs) = list_all json_decoded xs"
| "json_decoded (VMap kvs) = list_all (\<lambda>kv. json_decoded (snd kv)) kvs"
| "json_decoded (VInt i) = False"
| "json_decoded (VStringPtr p) = False"

text \<open>
  Type assertions with the comma-ok form, \<^verbatim>\<open>v, ok := m[key].(T)\<close>: the result is
  \<open>None\<close> when the key is absent or holds another dynamic type. A nil map reads as
  the empty map, as indexing a nil map does in Go.
\<close>

definition str_at :: "'n gomap \<Rightarrow> string \<Rightarrow> string option" where
  "str_at m k = (case map_of m k of Some (VString s) \<Rightarrow> Some s | _ \<Rightarrow> None)"

definition map_at :: "'n gomap \<Rightarrow> string \<Rightarrow> 'n gomap option" where
  "map_at m k = (case map_of m k of Some (VMap kvs) \<Rightarrow> Some kvs | _ \<Rightarrow> None)"

definition bool_at :: "'n gomap \<Rightarrow> string \<Rightarrow> bool option" where
  "bool_at m k = (case map_of m k of Some (VBool b) \<Rightarrow> Some b | _ \<Rightarrow> None)"

definition float_at :: "'n gomap \<Rightarrow> string \<Rightarrow> 'n option" where
  "float_at m k = (case map_of m k of Some (VFloat64 x) \<Rightarrow> Some x | _ \<Rightarrow> None)"

definition slice_at :: "'n gomap \<Rightarrow> string \<Rightarrow> 'n any list option" where
  "slice_at m k = (case map_of m k of Some (VSlice xs) \<Rightarrow> Some xs | _ \<Rightarrow> None)"

definition strptr_at :: "'n gomap \<Rightarrow> string \<Rightarrow> string option" where
  "strptr_at m k = (case map_of m k of Some (VStringPtr p) \<Rightarrow> p | _ \<Rightarrow> None)"

text \<open>\<^verbatim>\<open>m[key]\<close> as an \<^verbatim>\<open>any\<close>: untyped nil when the key is absent.\<close>

definition any_at :: "'n gomap \<Rightarrow> string \<Rightarrow> 'n any" where
  "any_at m k = (case map_of m k of Some v \<Rightarrow> v | None \<Rightarrow> VNil)"

text \<open>A variable of type \<^verbatim>\<open>map[string]any\<close> that may be nil, read as a map.\<close>

definition or_nil :: "'n gomap option \<Rightarrow> 'n gomap" where
  "or_nil m = (case m of Some kvs \<Rightarrow> kvs | None \<Rightarrow> [])"

text \<open>Storing a possibly nil \<^verbatim>\<open>map[string]any\<close> in an \<^verbatim>\<open>any\<close>.\<close>

definition of_map :: "'n gomap option \<Rightarrow> 'n any" where
  "of_map m = (case m of Some kvs \<Rightarrow> VMap kvs | None \<Rightarrow> VNil)"

text \<open>The helpers at the end of \<^verbatim>\<open>query.go\<close>.\<close>

definition getString :: "'n gomap \<Rightarrow> string \<Rightarrow> string" where
  "getString m key = (case str_at m key of Some v \<Rightarrow> v | None \<Rightarrow> [])"

definition getMap :: "'n gomap \<Rightarrow> string \<Rightarrow> 'n gomap option" where
  "getMap m key = map_at m key"

definition getBool :: "'n gomap \<Rightarrow> string \<Rightarrow> bool" where
  "getBool m key = (case bool_at m key of Some v \<Rightarrow> v | None \<Rightarrow> False)"

section \<open>Errors\<close>

text \<open>
  The error values of package \<^verbatim>\<open>errors\<close> that the protocol code constructs, and
  \<^verbatim>\<open>fmt.Errorf\<close> errors, which carry their message only. \<open>Error\<close> is the method
  \<^verbatim>\<open>Error()\<close> of \<^verbatim>\<open>ClaudeSDKError\<close> for a nil cause.
\<close>

datatype 'n error =
    Errorf string
  | MessageParseError string "'n gomap"
  | TimeoutError string
  | CLIConnectionError string
  | CLIJSONDecodeError string
  | ProcessError string int

definition NewTimeoutError :: "string \<Rightarrow> 'n error" where
  "NewTimeoutError operation = TimeoutError operation"

fun Error :: "'n error \<Rightarrow> string" where
  "Error (Errorf s) = s"
| "Error (MessageParseError message d) = message"
| "Error (TimeoutError operation) = ''Operation timed out: '' @ operation"
| "Error (CLIConnectionError message) = message"
| "Error (CLIJSONDecodeError line) =
     ''Failed to decode JSON: '' @ (if length line > 100 then take 100 line @ ''...'' else line)"
| "Error (ProcessError message exitCode) = message"

section \<open>Message classifier\<close>

datatype 'n ContentBlock =
    TextBlock string
  | ThinkingBlock string string
  | ToolUseBlock string string "'n gomap option"
  | ToolResultBlock string "'n any" "bool option"

text \<open>
  The \<^verbatim>\<open>Content\<close> of a user message is an \<^verbatim>\<open>any\<close>: the string, the classified
  blocks, or the raw value.
\<close>

datatype 'n UserContent =
    ContentString string
  | ContentBlocks "'n ContentBlock list"
  | ContentRaw "'n any"

record 'n ResultMessage =
  Subtype :: string
  DurationMS :: int
  DurationAPIMS :: int
  IsError :: bool
  NumTurns :: int
  SessionID :: string
  TotalCostUSD :: "'n option"
  Usage :: "'n gomap option"
  Result :: "string option"
  StructuredOutput :: "'n any"

datatype 'n Message =
    UserMessage "'n UserContent" "string option"
  | AssistantMessage "'n ContentBlock list" string "string option"
  | SystemMessage string "'n gomap"
  | ResultMsg "'n ResultMessage"
  | StreamEvent string string "'n gomap option" "string option"

text \<open>
  \<^verbatim>\<open>parseContentBlocks\<close>: one pass over the raw blocks. A block that is not a map, or
  whose \<^verbatim>\<open>type\<close> is none of the four known ones, adds nothing. The function has no
  error return path.
\<close>

definition parseContentBlock :: "'n any \<Rightarrow> 'n ContentBlock list" where
  "parseContentBlock raw =
     (case raw of
        VMap blockData \<Rightarrow>
          (let blockType = (case str_at blockData ''type'' of Some t \<Rightarrow> t | None \<Rightarrow> [])
           in if blockType = ''text'' then
                [TextBlock (case str_at blockData ''text'' of Some t \<Rightarrow> t | None \<Rightarrow> [])]
              else if blockType = ''thinking'' then
                [ThinkingBlock (getString blockData ''thinking'') (getString blockData ''signature'')]
              else if blockType = ''tool_use'' then
                [ToolUseBlock (getString blockData ''id'') (getString blockData ''name'')
                   (map_at blockData ''input'')]
              else if blockType = ''tool_result'' then
                [ToolResultBlock (getString blockData ''tool_use_id'') (any_at blockData ''content'')
                   (bool_at blockData ''is_error'')]
              else [])
      | _ \<Rightarrow> [])"

fun parseContentBlocks :: "'n any list \<Rightarrow> 'n ContentBlock list" where
  "parseContentBlocks [] = []"
| "parseContentBlocks (raw # rawBlocks) = parseContentBlock raw @ parseContentBlocks rawBlocks"

definition parseUserMessage :: "'n gomap \<Rightarrow> 'n error + 'n Message" where
  "parseUserMessage data =
     (case map_at data ''message'' of
        None \<Rightarrow> Inl (MessageParseError ''Missing 'message' field in user message'' data)
      | Some messageData \<Rightarrow>
          Inr (UserMessage
                 (case any_at messageData ''content'' of
                    VString c \<Rightarrow> ContentString c
                  | VSlice c \<Rightarrow> ContentBlocks (parseContentBlocks c)
                  | content \<Rightarrow> ContentRaw content)
                 (str_at data ''parent_tool_use_id'')))"

definition parseAssistantMessage :: "'n gomap \<Rightarrow> 'n error + 'n Message" where
  "parseAssistantMessage data =
     (case map_at data ''message'' of
        None \<Rightarrow> Inl (MessageParseError ''Missing 'message' field in assistant message'' data)
      | Some messageData \<Rightarrow>
          (case slice_at messageData ''content'' of
             None \<Rightarrow> Inl (MessageParseError ''Missing 'content' field in assistant message'' data)
           | Some contentRaw \<Rightarrow>
               Inr (AssistantMessage (parseContentBlocks contentRaw)
                      (getString messageData ''model'')
                      (str_at data ''parent_tool_use_id''))))"

definition parseSystemMessage :: "'n gomap \<Rightarrow> 'n error + 'n Message" where
  "parseSystemMessage data =
     (case str_at data ''subtype'' of
        None \<Rightarrow> Inl (MessageParseError ''Missing 'subtype' field in system message'' data)
      | Some subtype \<Rightarrow> Inr (SystemMessage subtype data))"

text \<open>
  \<^verbatim>\<open>parseResultMessage\<close> converts three float64 fields with \<^verbatim>\<open>int(x)\<close>; the
  conversion is the parameter \<open>to_int\<close>.
\<close>

definition parseResultMessage :: "('n \<Rightarrow> int) \<Rightarrow> 'n gomap \<Rightarrow> 'n error + 'n Message" where
  "parseResultMessage to_int data =
     Inr (ResultMsg
       \<lparr> Subtype = getString data ''subtype'',
         DurationMS = (case float_at data ''duration_ms'' of Some dms \<Rightarrow> to_int dms | None \<Rightarrow> 0),
         DurationAPIMS = (case float_at data ''duration_api_ms'' of Some dapi \<Rightarrow> to_int dapi | None \<Rightarrow> 0),
         IsError = getBool data ''is_error'',
         NumTurns = (case float_at data ''num_turns'' of Some nt \<Rightarrow> to_int nt | None \<Rightarrow> 0),
         SessionID = getString data ''session_id'',
         TotalCostUSD = float_at data ''total_cost_usd'',
         Usage = map_at data ''usage'',
         Result = str_at data ''result'',
         StructuredOutput = any_at data ''structured_output'' \<rparr>)"

definition parseStreamEvent :: "'n gomap \<Rightarrow> 'n error + 'n Message" where
  "parseStreamEvent data =
     Inr (StreamEvent (getString data ''uuid'') (getString data ''session_id'')
            (map_at data ''event'') (str_at data ''parent_tool_use_id''))"

definition ParseMessage :: "('n \<Rightarrow> int) \<Rightarrow> 'n gomap \<Rightarrow> 'n error + 'n Message" where
  "ParseMessage to_int data =
     (case str_at data ''type'' of
        None \<Rightarrow> Inl (MessageParseError ''Message missing 'type' field'' data)
      | Some msgType \<Rightarrow>
          if msgType = ''user'' then parseUserMessage data
          else if msgType = ''assistant'' then parseAssistantMessage data
          else if msgType = ''system'' then parseSystemMessage data
          else if msgType = ''result'' then parseResultMessage to_int data
          else if msgType = ''stream_event'' then parseStreamEvent data
          else Inl (MessageParseError (''Unknown message type: '' @ msgType) data))"

section \<open>Formatting\<close>

text \<open>
  \<^verbatim>\<open>fmt.Sprintf("%d", i)\<close>: the decimal digits of \<open>i\<close>, with a minus sign when negative.
\<close>

definition digit_char :: "nat \<Rightarrow> char" where
  "digit_char d = ''0123456789'' ! d"

fun dec :: "nat \<Rightarrow> string" where
  "dec n = (if n < 10 then [digit_char n] else dec (n div 10) @ [digit_char (n mod 10)])"

declare dec.simps [simp del]

definition fmt_d :: "int \<Rightarrow> string" where
  "fmt_d i = (if i < 0 then CHR ''-'' # dec (nat (- i)) else dec (nat i))"

text \<open>Arithmetic on \<^verbatim>\<open>int64\<close> wraps around.\<close>

definition wrap64 :: "int \<Rightarrow> int" where
  "wrap64 i = (i + 2 ^ 63) mod 2 ^ 64 - 2 ^ 63"

section \<open>Framer\<close>






section \<open>Callbacks and their data\<close>

text \<open>\<^verbatim>\<open>m[k] = v\<close> and \<^verbatim>\<open>delete(m, k)\<close> on a Go map.\<close>

definition put :: "'k \<Rightarrow> 'v \<Rightarrow> ('k \<times> 'v) list \<Rightarrow> ('k \<times> 'v) list" where
  "put k v m = filter (\<lambda>kv. fst kv \<noteq> k) m @ [(k, v)]"

definition del :: "'k \<Rightarrow> ('k \<times> 'v) list \<Rightarrow> ('k \<times> 'v) list" where
  "del k m = filter (\<lambda>kv. fst kv \<noteq> k) m"

text \<open>
  The permission types of package \<^verbatim>\<open>types\<close>. A pointer field is an \<open>option\<close>, and so
  is a slice or map field that the code tests against nil. The \<^verbatim>\<open>Signal\<close> fields of
  the two context structs are always nil and are left out.
\<close>

datatype PermissionRuleValue = PermissionRuleValue string "string option"

record PermissionUpdate =
  Type :: string
  Rules :: "PermissionRuleValue list option"
  Behavior :: "string option"
  Mode :: "string option"
  Directories :: "string list option"
  Destination :: "string option"

definition rule_map :: "PermissionRuleValue \<Rightarrow> 'n any" where
  "rule_map rule =
     (case rule of PermissionRuleValue toolName ruleContent \<Rightarrow>
        (let r = [(''toolName'', VString toolName)]
         in VMap (case ruleContent of Some c \<Rightarrow> put ''ruleContent'' (VString c) r | None \<Rightarrow> r)))"

definition ToMap :: "PermissionUpdate \<Rightarrow> 'n gomap" where
  "ToMap p =
     (let result = [(''type'', VString (Type p))];
          result = (case Destination p of Some d \<Rightarrow> put ''destination'' (VString d) result
                    | None \<Rightarrow> result)
      in if Type p = ''addRules'' \<or> Type p = ''replaceRules'' \<or> Type p = ''removeRules'' then
           (let result = (case Rules p of
                            Some rs \<Rightarrow> put ''rules'' (VSlice (map rule_map rs)) result
                          | None \<Rightarrow> result)
            in case Behavior p of Some b \<Rightarrow> put ''behavior'' (VString b) result | None \<Rightarrow> result)
         else if Type p = ''setMode'' then
           (case Mode p of Some m \<Rightarrow> put ''mode'' (VString m) result | None \<Rightarrow> result)
         else if Type p = ''addDirectories'' \<or> Type p = ''removeDirectories'' then
           (case Directories p of
              Some ds \<Rightarrow> put ''directories'' (VSlice (map VString ds)) result
            | None \<Rightarrow> result)
         else result)"

record ToolPermissionContext =
  Suggestions :: "PermissionUpdate list"

text \<open>
  A \<^verbatim>\<open>PermissionResult\<close> is an interface: a pointer to one of the two result structs,
  or nil.
\<close>

datatype 'n PermissionResult =
    PermissionResultAllow "'n gomap option" "PermissionUpdate list option"
  | PermissionResultDeny string bool
  | PermissionResultNil

text \<open>
  User callbacks are functions of their arguments (the \<^verbatim>\<open>context.Context\<close> apart) that
  return either an error or a result.
\<close>

type_synonym 'n CanUseToolCallback =
  "string \<Rightarrow> 'n gomap option \<Rightarrow> ToolPermissionContext \<Rightarrow> 'n error + 'n PermissionResult"

text \<open>The hook types of \<^verbatim>\<open>types/hooks.go\<close>.\<close>

datatype BaseHookInput = BaseHookInput string string string "string option"

datatype 'n HookInput =
    PreToolUseHookInput BaseHookInput string "'n gomap option"
  | PostToolUseHookInput BaseHookInput string "'n gomap option" "'n any"
  | UserPromptSubmitHookInput BaseHookInput string
  | StopHookInput BaseHookInput bool
  | SubagentStopHookInput BaseHookInput bool
  | PreCompactHookInput BaseHookInput string "string option"

datatype 'n HookSpecificOutput =
    PreToolUseHookSpecificOutput string "string option" "string option" "'n gomap option"
  | PostToolUseHookSpecificOutput string "string option"
  | UserPromptSubmitHookSpecificOutput string "string option"

record 'n HookOutput =
  Continue :: "bool option"
  SuppressOutput :: "bool option"
  StopReason :: "string option"
  Decision :: "string option"
  SystemMessage' :: "string option"
  Reason :: "string option"
  Async :: "bool option"
  AsyncTimeout :: "int option"
  HookSpecificOutput :: "'n HookSpecificOutput option"

text \<open>
  A \<^verbatim>\<open>HookCallback\<close> takes the typed input and the tool-use id, a \<^verbatim>\<open>*string\<close>; it
  returns an error or a \<^verbatim>\<open>*HookOutput\<close>, which may be nil.
\<close>

type_synonym 'n HookCallback =
  "'n HookInput \<Rightarrow> string option \<Rightarrow> 'n error + 'n HookOutput option"

datatype 'n HookMatcher = HookMatcher "string option" "'n HookCallback list" "'n option"

datatype 'n HookMatcherInternal = HookMatcherInternal "string option" "string list" "'n option"

datatype 'n MCPTool =
  MCPTool string string "'n gomap option" "'n gomap option \<Rightarrow> 'n error + 'n gomap option"

datatype 'n MCPServerHandler = MCPServerHandler string string "'n MCPTool list"

datatype 'n ControlResult = ControlResult (Response: "'n gomap option") (Err: "'n error option")

section \<open>The Query engine: state\<close>

text \<open>
  The fields of \<^verbatim>\<open>Query\<close> that the modelled methods use, followed by the objects those
  fields point to and the state of the goroutines working on the struct:

  \<^item> \<open>pendingResponses\<close> maps a request id to the address of its response channel;
    \<open>chans\<close> gives the values buffered in the channel at each address (each has
    capacity 1) and \<open>next_chan\<close> is the next unused address;
  \<^item> \<open>sends\<close> counts the values ever sent on each response channel (a history
    variable);
  \<^item> \<open>messageChan\<close> holds the buffered messages (capacity 100), \<open>consumed\<close> those the
    consumer has received; \<open>errorChan\<close> has capacity 1;
  \<^item> \<open>firstResultEvent\<close> and \<open>messageChan_closed\<close> tell whether the channel has been
    closed; \<open>ctx_cancelled\<close> whether \<^verbatim>\<open>q.cancel()\<close> has run;
  \<^item> \<open>transport_written\<close> lists the values serialised and handed to
    \<^verbatim>\<open>transport.Write\<close>;
  \<^item> \<open>callers\<close> are the goroutines inside \<^verbatim>\<open>sendControlRequest\<close> with their local
    variables, \<open>returned\<close> what finished calls have returned;
  \<^item> \<open>reader_done\<close> tells whether \<^verbatim>\<open>readMessages\<close> has returned, \<open>reader_ctx_done\<close>
    whether the context given to \<^verbatim>\<open>Start\<close> is done, and \<open>spawned\<close> lists the control
    requests handed to their own goroutine.
\<close>

datatype 'n caller =
  Caller (c_requestID: string) (c_respChan: nat) (c_request: "'n gomap") (c_waiting: bool)

record 'n Query =
  isStreamingMode :: bool
  canUseTool :: "'n CanUseToolCallback option"
  hooks :: "(string \<times> 'n HookMatcherInternal list) list"
  sdkMCPServers :: "(string \<times> 'n MCPServerHandler) list"
  pendingResponses :: "(string \<times> nat) list"
  hookCallbacks :: "(string \<times> 'n HookCallback) list"
  nextCallbackID :: int
  requestCounter :: int
  messageChan :: "'n gomap list"
  errorChan :: "'n error list"
  closed :: bool
  firstResultEvent :: bool
  ctx_cancelled :: bool
  messageChan_closed :: bool
  chans :: "nat \<Rightarrow> 'n ControlResult list"
  next_chan :: nat
  sends :: "nat \<Rightarrow> nat"
  consumed :: "'n gomap list"
  transport_written :: "'n gomap list"
  transport_closed :: bool
  callers :: "(nat \<times> 'n caller) list"
  returned :: "(nat \<times> ('n error + 'n gomap option)) list"
  reader_done :: bool
  reader_ctx_done :: bool
  spawned :: "'n gomap list"

record 'n QueryOptions =
  IsStreamingMode :: bool
  CanUseTool :: "'n CanUseToolCallback option"
  Hooks :: "(string \<times> 'n HookMatcher list) list option"
  SDKMCPServers :: "(string \<times> 'n MCPServerHandler) list"

section \<open>Hook registration\<close>

text \<open>
  The three nested loops of \<^verbatim>\<open>NewQuery\<close>. They thread the counter
  \<^verbatim>\<open>nextCallbackID\<close> and the table \<^verbatim>\<open>hookCallbacks\<close>. \<^verbatim>\<open>opts.Hooks\<close> is a Go map: the
  list gives its entries in the order the \<^verbatim>\<open>range\<close> loop happens to visit them.
\<close>

fun register_callbacks ::
  "int \<Rightarrow> (string \<times> 'n HookCallback) list \<Rightarrow> 'n HookCallback list
     \<Rightarrow> int \<times> (string \<times> 'n HookCallback) list \<times> string list" where
  "register_callbacks n tbl [] = (n, tbl, [])"
| "register_callbacks n tbl (callback # rest) =
     (let n' = wrap64 (n + 1);
          callbackID = ''hook_'' @ fmt_d (wrap64 (n' - 1));
          (n'', tbl'', callbackIDs) = register_callbacks n' (put callbackID callback tbl) rest
      in (n'', tbl'', callbackID # callbackIDs))"

fun register_matchers ::
  "int \<Rightarrow> (string \<times> 'n HookCallback) list \<Rightarrow> 'n HookMatcher list
     \<Rightarrow> int \<times> (string \<times> 'n HookCallback) list \<times> 'n HookMatcherInternal list" where
  "register_matchers n tbl [] = (n, tbl, [])"
| "register_matchers n tbl (m # rest) =
     (case m of HookMatcher matcher hs timeout \<Rightarrow>
        (let (n', tbl', callbackIDs) = register_callbacks n tbl hs;
             (n'', tbl'', ms) = register_matchers n' tbl' rest
         in (n'', tbl'', HookMatcherInternal matcher callbackIDs timeout # ms)))"

fun register_events ::
  "int \<Rightarrow> (string \<times> 'n HookCallback) list \<Rightarrow> (string \<times> 'n HookMatcherInternal list) list
     \<Rightarrow> (string \<times> 'n HookMatcher list) list
     \<Rightarrow> int \<times> (string \<times> 'n HookCallback) list \<times> (string \<times> 'n HookMatcherInternal list) list" where
  "register_events n tbl hs [] = (n, tbl, hs)"
| "register_events n tbl hs ((event, matchers) # rest) =
     (let (n', tbl', ms) = register_matchers n tbl matchers
      in register_events n' tbl' (put event ms hs) rest)"

definition NewQuery :: "'n QueryOptions \<Rightarrow> 'n Query" where
  "NewQuery opts =
     (let (n, tbl, hs) = (case Hooks opts of
                            Some h \<Rightarrow> register_events 0 [] [] h
                          | None \<Rightarrow> (0, [], []))
      in \<lparr> isStreamingMode = IsStreamingMode opts,
           canUseTool = CanUseTool opts,
           hooks = hs,
           sdkMCPServers = SDKMCPServers opts,
           pendingResponses = [],
           hookCallbacks = tbl,
           nextCallbackID = n,
           requestCounter = 0,
           messageChan = [],
           errorChan = [],
           closed = False,
           firstResultEvent = False,
           ctx_cancelled = False,
           messageChan_closed = False,
           chans = (\<lambda>a. []),
           next_chan = 0,
           sends = (\<lambda>a. 0),
           consumed = [],
           transport_written = [],
           transport_closed = False,
           callers = [],
           returned = [],
           reader_done = False,
           reader_ctx_done = False,
           spawned = [] \<rparr>)"

text \<open>
  The callbacks of a hook configuration and the callback ids of the registered
  matchers, both in the order of registration.
\<close>

definition matcher_callbacks :: "'n HookMatcher \<Rightarrow> 'n HookCallback list" where
  "matcher_callbacks m = (case m of HookMatcher matcher hs timeout \<Rightarrow> hs)"

definition config_callbacks :: "(string \<times> 'n HookMatcher list) list \<Rightarrow> 'n HookCallback list" where
  "config_callbacks h = concat (map (\<lambda>em. concat (map matcher_callbacks (snd em))) h)"

definition matcher_ids :: "'n HookMatcherInternal \<Rightarrow> string list" where
  "matcher_ids m = (case m of HookMatcherInternal matcher callbackIDs timeout \<Rightarrow> callbackIDs)"

definition registered_ids :: "(string \<times> 'n HookMatcherInternal list) list \<Rightarrow> string list" where
  "registered_ids hs = concat (map (\<lambda>em. concat (map matcher_ids (snd em))) hs)"

text \<open>The ids \<^verbatim>\<open>hook_0\<close>, ..., \<^verbatim>\<open>hook_(k-1)\<close>.\<close>

definition hook_ids :: "nat \<Rightarrow> string list" where
  "hook_ids k = map (\<lambda>i. ''hook_'' @ fmt_d (int i)) [0..<k]"

section \<open>Inbound control requests\<close>

text \<open>
  The loop of \<^verbatim>\<open>handleToolPermission\<close> that converts the permission suggestions. It
  skips a suggestion that is not a map; for a map it evaluates
  \<^verbatim>\<open>sMap["type"].(string)\<close> without the comma-ok form, which panics when the value is
  not a string. \<open>None\<close> is the panic.
\<close>

fun convert_suggestions :: "'n any list \<Rightarrow> PermissionUpdate list option" where
  "convert_suggestions [] = Some []"
| "convert_suggestions (s # rest) =
     (case s of
        VMap sMap \<Rightarrow>
          (case str_at sMap ''type'' of
             None \<Rightarrow> None
           | Some t \<Rightarrow>
               map_option
                 ((#) \<lparr>Type = t, Rules = None, Behavior = None, Mode = None,
                        Directories = None, Destination = None\<rparr>)
                 (convert_suggestions rest))
      | _ \<Rightarrow> convert_suggestions rest)"

text \<open>
  \<^verbatim>\<open>handleToolPermission\<close>. The result is \<open>None\<close> when the goroutine panics,
  otherwise the pair of return values: \<open>Inl\<close> for a non-nil error, \<open>Inr\<close> for the
  response data.
\<close>

definition handleToolPermission :: "'n Query \<Rightarrow> 'n gomap \<Rightarrow> ('n error + 'n gomap) option" where
  "handleToolPermission q req =
     (case canUseTool q of
        None \<Rightarrow> Some (Inl (Errorf ''canUseTool callback is not provided''))
      | Some callback \<Rightarrow>
          (let toolName = getString req ''tool_name'';
               input = map_at req ''input'';
               suggestions = (case slice_at req ''permission_suggestions'' of
                                Some xs \<Rightarrow> xs | None \<Rightarrow> [])
           in case convert_suggestions suggestions of
                None \<Rightarrow> None
              | Some updates \<Rightarrow>
                  (case callback toolName input \<lparr>Suggestions = updates\<rparr> of
                     Inl err \<Rightarrow> Some (Inl err)
                   | Inr (PermissionResultAllow updatedInput updatedPermissions) \<Rightarrow>
                       (let responseData = [(''behavior'', VString ''allow'')];
                            responseData =
                              (case updatedInput of
                                 Some u \<Rightarrow> put ''updatedInput'' (VMap u) responseData
                               | None \<Rightarrow> put ''updatedInput'' (of_map input) responseData);
                            responseData =
                              (case updatedPermissions of
                                 Some ps \<Rightarrow>
                                   put ''updatedPermissions''
                                     (VSlice (map (\<lambda>p. VMap (ToMap p)) ps)) responseData
                               | None \<Rightarrow> responseData)
                        in Some (Inr responseData))
                   | Inr (PermissionResultDeny message interrupt) \<Rightarrow>
                       (let responseData =
                              [(''behavior'', VString ''deny''), (''message'', VString message)];
                            responseData =
                              (if interrupt then put ''interrupt'' (VBool True) responseData
                               else responseData)
                        in Some (Inr responseData))
                   | Inr PermissionResultNil \<Rightarrow>
                       Some (Inl (Errorf ''invalid permission result type'')))))"

definition parseHookInput :: "'n any \<Rightarrow> 'n error + 'n HookInput" where
  "parseHookInput input =
     (case input of
        VMap data \<Rightarrow>
          (let eventName = getString data ''hook_event_name'';
               base = BaseHookInput (getString data ''session_id'')
                        (getString data ''transcript_path'') (getString data ''cwd'')
                        (str_at data ''permission_mode'')
           in if eventName = ''PreToolUse'' then
                Inr (PreToolUseHookInput base (getString data ''tool_name'')
                       (getMap data ''tool_input''))
              else if eventName = ''PostToolUse'' then
                Inr (PostToolUseHookInput base (getString data ''tool_name'')
                       (getMap data ''tool_input'') (any_at data ''tool_response''))
              else if eventName = ''UserPromptSubmit'' then
                Inr (UserPromptSubmitHookInput base (getString data ''prompt''))
              else if eventName = ''Stop'' then
                Inr (StopHookInput base (getBool data ''stop_hook_active''))
              else if eventName = ''SubagentStop'' then
                Inr (SubagentStopHookInput base (getBool data ''stop_hook_active''))
              else if eventName = ''PreCompact'' then
                Inr (PreCompactHookInput base (getString data ''trigger'')
                       (str_at data ''custom_instructions''))
              else Inl (Errorf (''unknown hook event: '' @ eventName)))
      | _ \<Rightarrow> Inl (Errorf ''invalid hook input format''))"

text \<open>An optional entry of a map under construction.\<close>

definition put_opt :: "string \<Rightarrow> ('a \<Rightarrow> 'n any) \<Rightarrow> 'a option \<Rightarrow> 'n gomap \<Rightarrow> 'n gomap" where
  "put_opt k f v m = (case v of Some x \<Rightarrow> put k (f x) m | None \<Rightarrow> m)"

definition hookOutputToMap :: "'n HookOutput option \<Rightarrow> 'n gomap" where
  "hookOutputToMap output =
     (case output of
        None \<Rightarrow> []
      | Some out \<Rightarrow>
          (let result = [];
               result = put_opt ''continue'' VBool (Continue out) result;
               result = put_opt ''suppressOutput'' VBool (SuppressOutput out) result;
               result = put_opt ''stopReason'' VString (StopReason out) result;
               result = put_opt ''decision'' VString (Decision out) result;
               result = put_opt ''systemMessage'' VString (SystemMessage' out) result;
               result = put_opt ''reason'' VString (Reason out) result;
               result = put_opt ''async'' VBool (Async out) result;
               result = put_opt ''asyncTimeout'' VInt (AsyncTimeout out) result
           in case HookSpecificOutput out of
                None \<Rightarrow> result
              | Some (PreToolUseHookSpecificOutput name decision reason updatedInput) \<Rightarrow>
                  (let hsoMap = [(''hookEventName'', VString name)];
                       hsoMap = put_opt ''permissionDecision'' VString decision hsoMap;
                       hsoMap = put_opt ''permissionDecisionReason'' VString reason hsoMap;
                       hsoMap = put_opt ''updatedInput'' VMap updatedInput hsoMap
                   in put ''hookSpecificOutput'' (VMap hsoMap) result)
              | Some (PostToolUseHookSpecificOutput name additionalContext) \<Rightarrow>
                  (let hsoMap = [(''hookEventName'', VString name)];
                       hsoMap = put_opt ''additionalContext'' VString additionalContext hsoMap
                   in put ''hookSpecificOutput'' (VMap hsoMap) result)
              | Some (UserPromptSubmitHookSpecificOutput name additionalContext) \<Rightarrow>
                  (let hsoMap = [(''hookEventName'', VString name)];
                       hsoMap = put_opt ''additionalContext'' VString additionalContext hsoMap
                   in put ''hookSpecificOutput'' (VMap hsoMap) result)))"

text \<open>
  \<^verbatim>\<open>handleHookCallback\<close>. The tool-use id is read with
  \<^verbatim>\<open>request["tool_use_id"].(*string)\<close>: the assertion yields the pointer when the
  dynamic type of the value is \<^verbatim>\<open>*string\<close>, and nil otherwise.
\<close>

definition handleHookCallback :: "'n Query \<Rightarrow> 'n gomap \<Rightarrow> 'n error + 'n gomap" where
  "handleHookCallback q req =
     (let callbackID = getString req ''callback_id'';
          input = any_at req ''input'';
          toolUseID = strptr_at req ''tool_use_id''
      in case map_of (hookCallbacks q) callbackID of
           None \<Rightarrow> Inl (Errorf (''no hook callback found for ID: '' @ callbackID))
         | Some callback \<Rightarrow>
             (case parseHookInput input of
                Inl err \<Rightarrow> Inl err
              | Inr hookInput \<Rightarrow>
                  (case callback hookInput toolUseID of
                     Inl err \<Rightarrow> Inl err
                   | Inr output \<Rightarrow> Inr (hookOutputToMap output))))"

text \<open>\<^verbatim>\<open>MCPServerHandler.HandleRequest\<close> and its loop over the tools.\<close>

fun call_tool :: "'n MCPTool list \<Rightarrow> string \<Rightarrow> 'n gomap option \<Rightarrow> 'n any \<Rightarrow> 'n gomap" where
  "call_tool [] toolName args ident =
     [(''jsonrpc'', VString ''2.0''), (''id'', ident),
      (''error'', VMap [(''code'', VInt (- 32601)),
                        (''message'', VString (''Tool '' @ CHR 0x27 # toolName @ CHR 0x27 # '' not found''))])]"
| "call_tool (MCPTool name description inputSchema handler # rest) toolName args ident =
     (if name = toolName then
        (case handler args of
           Inl err \<Rightarrow>
             [(''jsonrpc'', VString ''2.0''), (''id'', ident),
              (''error'', VMap [(''code'', VInt (- 32603)), (''message'', VString (Error err))])]
         | Inr result \<Rightarrow>
             [(''jsonrpc'', VString ''2.0''), (''id'', ident), (''result'', of_map result)])
      else call_tool rest toolName args ident)"

definition tool_entry :: "'n MCPTool \<Rightarrow> 'n any" where
  "tool_entry tool =
     (case tool of MCPTool name description inputSchema handler \<Rightarrow>
        VMap [(''name'', VString name), (''description'', VString description),
              (''inputSchema'', of_map inputSchema)])"

definition HandleRequest :: "'n MCPServerHandler \<Rightarrow> 'n gomap \<Rightarrow> 'n gomap" where
  "HandleRequest h message =
     (case h of MCPServerHandler name version tools \<Rightarrow>
        (let method = getString message ''method'';
             params = or_nil (map_at message ''params'');
             ident = any_at message ''id''
         in if method = ''initialize'' then
              [(''jsonrpc'', VString ''2.0''), (''id'', ident),
               (''result'', VMap [(''protocolVersion'', VString ''2024-11-05''),
                  (''capabilities'', VMap [(''tools'', VMap [])]),
                  (''serverInfo'', VMap [(''name'', VString name),
                                         (''version'', VString version)])])]
            else if method = ''tools/list'' then
              [(''jsonrpc'', VString ''2.0''), (''id'', ident),
               (''result'', VMap [(''tools'', VSlice (map tool_entry tools))])]
            else if method = ''tools/call'' then
              call_tool tools (getString params ''name'') (map_at params ''arguments'') ident
            else if method = ''notifications/initialized'' then
              [(''jsonrpc'', VString ''2.0''), (''result'', VMap [])]
            else
              [(''jsonrpc'', VString ''2.0''), (''id'', ident),
               (''error'', VMap [(''code'', VInt (- 32601)),
                  (''message'', VString (''Method '' @ CHR 0x27 # method @ CHR 0x27 # '' not found''))])]))"

definition handleMCPMessage :: "'n Query \<Rightarrow> 'n gomap \<Rightarrow> 'n error + 'n gomap" where
  "handleMCPMessage q req =
     (let serverName = getString req ''server_name'';
          message = or_nil (map_at req ''message'')
      in case map_of (sdkMCPServers q) serverName of
           None \<Rightarrow>
             Inr [(''mcp_response'',
                   VMap [(''jsonrpc'', VString ''2.0''), (''id'', any_at message ''id''),
                         (''error'', VMap [(''code'', VInt (- 32601)),
                            (''message'', VString (''Server '' @ CHR 0x27 # serverName @ CHR 0x27 # '' not found''))])])]
         | Some handler \<Rightarrow> Inr [(''mcp_response'', VMap (HandleRequest handler message))])"

text \<open>
  \<^verbatim>\<open>handleControlRequest\<close>: the value it serialises and writes to the transport, or
  \<open>None\<close> when the handler panics and nothing is written.
\<close>

definition control_response :: "string \<Rightarrow> 'n error + 'n gomap \<Rightarrow> 'n gomap" where
  "control_response requestID r =
     (case r of
        Inl err \<Rightarrow>
          [(''type'', VString ''control_response''),
           (''response'', VMap [(''subtype'', VString ''error''),
                                (''request_id'', VString requestID),
                                (''error'', VString (Error err))])]
      | Inr responseData \<Rightarrow>
          [(''type'', VString ''control_response''),
           (''response'', VMap [(''subtype'', VString ''success''),
                                (''request_id'', VString requestID),
                                (''response'', VMap responseData)])])"

definition handleControlRequest :: "'n Query \<Rightarrow> 'n gomap \<Rightarrow> 'n gomap option" where
  "handleControlRequest q msg =
     (let requestID = getString msg ''request_id'';
          req = or_nil (map_at msg ''request'');
          subtype = getString req ''subtype'';
          r = (if subtype = ''can_use_tool'' then handleToolPermission q req
               else if subtype = ''hook_callback'' then Some (handleHookCallback q req)
               else if subtype = ''mcp_message'' then Some (handleMCPMessage q req)
               else Some (Inl (Errorf (''unsupported control request subtype: '' @ subtype))))
      in map_option (control_response requestID) r)"

section \<open>The Query engine: steps\<close>

text \<open>
  Channel operations on a response channel of capacity 1. A blocking send is possible
  only while the buffer has room (\<open>None\<close>: the sender stays blocked); the send inside
  \<^verbatim>\<open>select { case ch <- v: default: }\<close> does nothing on a full buffer.
\<close>

definition chan_send :: "'n Query \<Rightarrow> nat \<Rightarrow> 'n ControlResult \<Rightarrow> 'n Query option" where
  "chan_send q ch v =
     (if length (chans q ch) < 1
      then Some (q\<lparr>chans := (chans q)(ch := chans q ch @ [v]),
                   sends := (sends q)(ch := sends q ch + 1)\<rparr>)
      else None)"

definition try_send :: "'n Query \<Rightarrow> nat \<Rightarrow> 'n ControlResult \<Rightarrow> 'n Query" where
  "try_send q ch v = (case chan_send q ch v of Some q' \<Rightarrow> q' | None \<Rightarrow> q)"

text \<open>
  \<^verbatim>\<open>handleControlResponse\<close>: the lookup and the delete happen under \<^verbatim>\<open>pendingMu\<close>,
  the send on the channel after the unlock.
\<close>

definition handleControlResponse :: "'n Query \<Rightarrow> 'n gomap \<Rightarrow> 'n Query option" where
  "handleControlResponse q msg =
     (let response = or_nil (map_at msg ''response'');
          rid = getString response ''request_id''
      in case map_of (pendingResponses q) rid of
           None \<Rightarrow> Some q
         | Some ch \<Rightarrow>
             (let q1 = q\<lparr>pendingResponses := del rid (pendingResponses q)\<rparr>
              in if getString response ''subtype'' = ''error'' then
                   chan_send q1 ch (ControlResult None (Some (Errorf (getString response ''error''))))
                 else
                   chan_send q1 ch (ControlResult (map_at response ''response'') None)))"

text \<open>
  One iteration of the loop of \<^verbatim>\<open>readMessages\<close>, given the case its \<^verbatim>\<open>select\<close> takes.
  \<open>SelErr\<close> carries the error when \<^verbatim>\<open>ok && err != nil\<close>. \<open>SelMsg\<close> carries the message
  received and the case taken by the second \<^verbatim>\<open>select\<close>, the one around the send on
  \<^verbatim>\<open>messageChan\<close>, which only a conversational message reaches. An iteration is
  recorded when it completes; \<open>None\<close> means that the chosen case is not ready in this
  state, or that the reader blocks.
\<close>

datatype push_case = PushSend | PushCtxDone | PushQCtxDone

datatype 'n reader_event =
    SelCtxDone
  | SelQCtxDone
  | SelErr "'n error option"
  | SelMsgClosed
  | SelMsg "'n gomap" push_case

definition reader_return :: "'n Query \<Rightarrow> 'n Query" where
  "reader_return q = q\<lparr>reader_done := True, messageChan_closed := True\<rparr>"

definition signal_pending :: "'n Query \<Rightarrow> 'n error \<Rightarrow> 'n Query" where
  "signal_pending q err =
     foldl (\<lambda>q' kv. try_send q' (snd kv) (ControlResult None (Some err))) q (pendingResponses q)"

definition signal_errorChan :: "'n Query \<Rightarrow> 'n error \<Rightarrow> 'n Query" where
  "signal_errorChan q err =
     (if length (errorChan q) < 1 then q\<lparr>errorChan := errorChan q @ [err]\<rparr> else q)"

fun readMessages_step :: "'n Query \<Rightarrow> 'n reader_event \<Rightarrow> 'n Query option" where
  "readMessages_step q SelCtxDone =
     (if reader_ctx_done q then Some (reader_return q) else None)"
| "readMessages_step q SelQCtxDone =
     (if ctx_cancelled q then Some (reader_return q) else None)"
| "readMessages_step q (SelErr None) = Some (reader_return q)"
| "readMessages_step q (SelErr (Some err)) =
     Some (reader_return (signal_errorChan (signal_pending q err) err))"
| "readMessages_step q SelMsgClosed = Some (reader_return q)"
| "readMessages_step q (SelMsg msg push) =
     (if closed q then Some (reader_return q)
      else
        let msgType = getString msg ''type'' in
        if msgType = ''control_response'' then handleControlResponse q msg
        else if msgType = ''control_request'' then Some (q\<lparr>spawned := spawned q @ [msg]\<rparr>)
        else if msgType = ''control_cancel_request'' then Some q
        else
          let q1 = (if msgType = ''result'' then q\<lparr>firstResultEvent := True\<rparr> else q) in
          (case push of
             PushSend \<Rightarrow>
               if length (messageChan q1) < 100
               then Some (q1\<lparr>messageChan := messageChan q1 @ [msg]\<rparr>)
               else None
           | PushCtxDone \<Rightarrow> if reader_ctx_done q1 then Some (reader_return q1) else None
           | PushQCtxDone \<Rightarrow> if ctx_cancelled q1 then Some (reader_return q1) else None))"

text \<open>
  The steps of the goroutines that work on one \<^verbatim>\<open>Query\<close> after \<^verbatim>\<open>Start\<close>:

  \<^item> \<open>Call cid req hex\<close>: goroutine \<open>cid\<close> enters \<^verbatim>\<open>sendControlRequest\<close> and runs it up
    to the registration of its response channel; \<open>hex\<close> is the hex encoding of the
    random bytes. The callers of this unexported function (\<^verbatim>\<open>Initialize\<close>,
    \<^verbatim>\<open>Interrupt\<close>, \<^verbatim>\<open>SetPermissionMode\<close>, \<^verbatim>\<open>SetModel\<close>) all pass a request whose
    \<^verbatim>\<open>subtype\<close> is a string.
  \<^item> \<open>Sent cid err\<close>: \<^verbatim>\<open>json.Marshal\<close> and \<^verbatim>\<open>transport.Write\<close> have finished, with
    error \<open>err\<close> if one of them failed.
  \<^item> \<open>CallerCtxDone cid\<close> and \<open>CallerRecv cid\<close>: the final \<^verbatim>\<open>select\<close> of the call takes
    the \<^verbatim>\<open>ctx.Done()\<close> case, or the receive from the response channel.
  \<^item> \<open>Reader e\<close>: one iteration of the reader loop.
  \<^item> \<open>HandlerDone i\<close>: the goroutine running \<^verbatim>\<open>handleControlRequest\<close> for the
    \<open>i\<close>-th control request still in flight finishes and hands its response to
    \<^verbatim>\<open>transport.Write\<close>, whose error it ignores. A panic in the handler ends the
    program: there is no next state.
  \<^item> \<open>Close\<close>: the method \<^verbatim>\<open>Close\<close>.
  \<^item> \<open>CancelCtx\<close>: the context given to \<^verbatim>\<open>Start\<close> is cancelled.
  \<^item> \<open>Consume\<close>: the consumer receives the next message from \<^verbatim>\<open>messageChan\<close>.

  \<open>step\<close> gives the state after an event, or \<open>None\<close> when the event cannot take place
  in the state. \<open>run\<close> replays a schedule.
\<close>

datatype 'n event =
    Call nat "'n gomap" string
  | Sent nat "'n error option"
  | CallerCtxDone nat
  | CallerRecv nat
  | Reader "'n reader_event"
  | HandlerDone nat
  | Close
  | CancelCtx
  | Consume

definition finish :: "'n Query \<Rightarrow> nat \<Rightarrow> 'n error + 'n gomap option \<Rightarrow> 'n Query" where
  "finish q cid r = q\<lparr>callers := del cid (callers q), returned := put cid r (returned q)\<rparr>"

fun step :: "'n Query \<Rightarrow> 'n event \<Rightarrow> 'n Query option" where
  "step q (Call cid req hex) =
     (if map_of (callers q) cid \<noteq> None \<or> map_of (returned q) cid \<noteq> None
         \<or> str_at req ''subtype'' = None then None
      else if \<not> isStreamingMode q then
        Some (finish q cid (Inl (Errorf ''control requests require streaming mode'')))
      else
        let counter = wrap64 (requestCounter q + 1);
            rid = ''req_'' @ fmt_d counter @ ''_'' @ hex;
            ch = next_chan q
        in Some (q\<lparr>requestCounter := counter,
                    next_chan := ch + 1,
                    chans := (chans q)(ch := []),
                    sends := (sends q)(ch := 0),
                    pendingResponses := put rid ch (pendingResponses q),
                    callers := put cid (Caller rid ch req False) (callers q)\<rparr>))"
| "step q (Sent cid err) =
     (case map_of (callers q) cid of
        Some (Caller rid ch req False) \<Rightarrow>
          (case err of
             Some e \<Rightarrow>
               Some (finish (q\<lparr>pendingResponses := del rid (pendingResponses q)\<rparr>) cid (Inl e))
           | None \<Rightarrow>
               Some (q\<lparr>transport_written := transport_written q @
                          [[(''type'', VString ''control_request''),
                            (''request_id'', VString rid),
                            (''request'', VMap req)]],
                        callers := put cid (Caller rid ch req True) (callers q)\<rparr>))
      | _ \<Rightarrow> None)"
| "step q (CallerCtxDone cid) =
     (case map_of (callers q) cid of
        Some (Caller rid ch req True) \<Rightarrow>
          Some (finish (q\<lparr>pendingResponses := del rid (pendingResponses q)\<rparr>) cid
                  (Inl (NewTimeoutError (''control request: '' @ getString req ''subtype''))))
      | _ \<Rightarrow> None)"
| "step q (CallerRecv cid) =
     (case map_of (callers q) cid of
        Some (Caller rid ch req True) \<Rightarrow>
          (case chans q ch of
             [] \<Rightarrow> None
           | result # rest \<Rightarrow>
               Some (finish (q\<lparr>chans := (chans q)(ch := rest)\<rparr>) cid
                       (case Err result of
                          Some e \<Rightarrow> Inl e
                        | None \<Rightarrow> Inr (Response result))))
      | _ \<Rightarrow> None)"
| "step q (Reader e) = (if reader_done q then None else readMessages_step q e)"
| "step q (HandlerDone i) =
     (if i < length (spawned q) then
        (case handleControlRequest q (spawned q ! i) of
           None \<Rightarrow> None
         | Some response \<Rightarrow>
             Some (q\<lparr>spawned := take i (spawned q) @ drop (Suc i) (spawned q),
                      transport_written := transport_written q @ [response]\<rparr>))
      else None)"
| "step q Close = Some (q\<lparr>closed := True, ctx_cancelled := True, transport_closed := True\<rparr>)"
| "step q CancelCtx = Some (q\<lparr>reader_ctx_done := True\<rparr>)"
| "step q Consume =
     (case messageChan q of
        [] \<Rightarrow> None
      | m # rest \<Rightarrow> Some (q\<lparr>messageChan := rest, consumed := consumed q @ [m]\<rparr>))"

fun run :: "'n Query \<Rightarrow> 'n event list \<Rightarrow> 'n Query option" where
  "run q [] = Some q"
| "run q (e # es) = (case step q e of None \<Rightarrow> None | Some q' \<Rightarrow> run q' es)"

text \<open>
  What the reader has taken from the transport's message channel along a schedule, and
  everything it has sent on \<^verbatim>\<open>messageChan\<close>: the messages the consumer has received,
  followed by those still buffered.
\<close>

fun received :: "'n event list \<Rightarrow> 'n gomap list" where
  "received [] = []"
| "received (Reader (SelMsg msg push) # es) = msg # received es"
| "received (e # es) = received es"

definition forwarded :: "'n Query \<Rightarrow> 'n gomap list" where
  "forwarded q = consumed q @ messageChan q"

definition control_envelope :: "'n gomap \<Rightarrow> bool" where
  "control_envelope msg \<longleftrightarrow>
     getString msg ''type'' = ''control_request'' \<or> getString msg ''type'' = ''control_response''
     \<or> getString msg ''type'' = ''control_cancel_request''"

section \<open>The classifier rejects unknown kinds and skips unknown blocks\<close>

lemma parseContentBlocks_append:
  "parseContentBlocks (xs @ ys) = parseContentBlocks xs @ parseContentBlocks ys"
  by (induction xs) simp_all

lemma parseContentBlock_unknown:
  assumes "\<forall>bd. b = VMap bd \<longrightarrow>
             (case str_at bd ''type'' of Some bt \<Rightarrow> bt | None \<Rightarrow> [])
               \<notin> {''text'', ''thinking'', ''tool_use'', ''tool_result''}"
  shows "parseContentBlock b = []"
  using assms by (cases b) (auto simp: parseContentBlock_def Let_def)

lemma parseContentBlock_known:
  assumes "(case str_at bd ''type'' of Some bt \<Rightarrow> bt | None \<Rightarrow> [])
               \<in> {''text'', ''thinking'', ''tool_use'', ''tool_result''}"
  shows "length (parseContentBlock (VMap bd)) = 1"
  using assms by (auto simp: parseContentBlock_def Let_def)

text \<open>
  Claim C7. \<^verbatim>\<open>ParseMessage\<close> answers an object without a string \<^verbatim>\<open>type\<close>, or with
  a \<^verbatim>\<open>type\<close> outside the five known kinds, with a \<open>MessageParseError\<close>. In
  the content of a user or assistant message, a block with one of the four known types
  gives exactly one classified block, and a block \<open>b\<close> that is not a map or whose
  \<^verbatim>\<open>type\<close> is unrecognised is skipped: the blocks before and after it are classified as
  they would be without it, and the message as a whole is returned.
\<close>

theorem ParseMessage_unknown_types:
  "(str_at data ''type'' = None \<longrightarrow>
      ParseMessage to_int data = Inl (MessageParseError ''Message missing 'type' field'' data))
   \<and> (str_at data ''type'' = Some t
        \<and> t \<notin> {''user'', ''assistant'', ''system'', ''result'', ''stream_event''} \<longrightarrow>
      ParseMessage to_int data = Inl (MessageParseError (''Unknown message type: '' @ t) data))
   \<and> ((case str_at kd ''type'' of Some bt \<Rightarrow> bt | None \<Rightarrow> [])
          \<in> {''text'', ''thinking'', ''tool_use'', ''tool_result''} \<longrightarrow>
      length (parseContentBlock (VMap kd)) = 1)
   \<and> ((\<forall>bd. b = VMap bd \<longrightarrow>
          (case str_at bd ''type'' of Some bt \<Rightarrow> bt | None \<Rightarrow> [])
            \<notin> {''text'', ''thinking'', ''tool_use'', ''tool_result''}) \<longrightarrow>
      parseContentBlocks (xs @ b # ys) = parseContentBlocks xs @ parseContentBlocks ys
      \<and> (str_at data ''type'' = Some ''assistant'' \<and> map_at data ''message'' = Some md
           \<and> slice_at md ''content'' = Some (xs @ b # ys) \<longrightarrow>
         ParseMessage to_int data
           = Inr (AssistantMessage (parseContentBlocks xs @ parseContentBlocks ys)
                    (getString md ''model'') (str_at data ''parent_tool_use_id'')))
      \<and> (str_at data ''type'' = Some ''user'' \<and> map_at data ''message'' = Some md
           \<and> any_at md ''content'' = VSlice (xs @ b # ys) \<longrightarrow>
         ParseMessage to_int data
           = Inr (UserMessage (ContentBlocks (parseContentBlocks xs @ parseContentBlocks ys))
                    (str_at data ''parent_tool_use_id''))))"
proof (intro conjI impI)
  assume "str_at data ''type'' = None"
  then show "ParseMessage to_int data = Inl (MessageParseError ''Message missing 'type' field'' data)"
    by (simp add: ParseMessage_def)
next
  assume "str_at data ''type'' = Some t
        \<and> t \<notin> {''user'', ''assistant'', ''system'', ''result'', ''stream_event''}"
  then show "ParseMessage to_int data = Inl (MessageParseError (''Unknown message type: '' @ t) data)"
    by (simp add: ParseMessage_def)
next
  assume "(case str_at kd ''type'' of Some bt \<Rightarrow> bt | None \<Rightarrow> [])
          \<in> {''text'', ''thinking'', ''tool_use'', ''tool_result''}"
  then show "length (parseContentBlock (VMap kd)) = 1"
    by (rule parseContentBlock_known)
next
  assume u: "\<forall>bd. b = VMap bd \<longrightarrow>
          (case str_at bd ''type'' of Some bt \<Rightarrow> bt | None \<Rightarrow> [])
            \<notin> {''text'', ''thinking'', ''tool_use'', ''tool_result''}"
  show skip: "parseContentBlocks (xs @ b # ys) = parseContentBlocks xs @ parseContentBlocks ys"
    by (simp add: parseContentBlocks_append parseContentBlock_unknown[OF u])
  {
    assume "str_at data ''type'' = Some ''assistant'' \<and> map_at data ''message'' = Some md
           \<and> slice_at md ''content'' = Some (xs @ b # ys)"
    then show "ParseMessage to_int data
           = Inr (AssistantMessage (parseContentBlocks xs @ parseContentBlocks ys)
                    (getString md ''model'') (str_at data ''parent_tool_use_id''))"
      using skip by (simp add: ParseMessage_def parseAssistantMessage_def)
  }
  {
    assume "str_at data ''type'' = Some ''user'' \<and> map_at data ''message'' = Some md
           \<and> any_at md ''content'' = VSlice (xs @ b # ys)"
    then show "ParseMessage to_int data
           = Inr (UserMessage (ContentBlocks (parseContentBlocks xs @ parseContentBlocks ys))
                    (str_at data ''parent_tool_use_id''))"
      using skip by (simp add: ParseMessage_def parseUserMessage_def)
  }
qed

theorem ParseMessage_unknown_types_witness:
  "ParseMessage (\<lambda>x::int. x) [(''kind'', VString ''user'')]
     = Inl (MessageParseError ''Message missing 'type' field'' [(''kind'', VString ''user'')])
   \<and> ParseMessage (\<lambda>x::int. x) [(''type'', VString ''control_request'')]
     = Inl (MessageParseError ''Unknown message type: control_request''
              [(''type'', VString ''control_request'')])
   \<and> ParseMessage (\<lambda>x::int. x)
        [(''type'', VString ''assistant''),
         (''message'', VMap [(''model'', VString ''m''),
            (''content'', VSlice [VMap [(''type'', VString ''text''), (''text'', VString ''hi'')],
                                  VMap [(''type'', VString ''image'')],
                                  VMap [(''type'', VString ''thinking''), (''thinking'', VString ''hm'')]])])]
     = Inr (AssistantMessage [TextBlock ''hi'', ThinkingBlock ''hm'' []] ''m'' None)"
proof -
  let ?md = "[(''model'', VString ''m''),
            (''content'', VSlice [VMap [(''type'', VString ''text''), (''text'', VString ''hi'')],
                                  VMap [(''type'', VString ''image'')],
                                  VMap [(''type'', VString ''thinking''), (''thinking'', VString ''hm'')]])]"
  let ?d = "[(''type'', VString ''assistant''), (''message'', VMap ?md)]"
  have a: "ParseMessage (\<lambda>x::int. x) [(''kind'', VString ''user'')]
     = Inl (MessageParseError ''Message missing 'type' field'' [(''kind'', VString ''user'')])"
    using ParseMessage_unknown_types[of "[(''kind'', VString ''user'')]" "(\<lambda>x::int. x)"
        "[]" "[]" VNil "[]" "[]" "[]"]
    by (simp add: str_at_def)
  have b: "ParseMessage (\<lambda>x::int. x) [(''type'', VString ''control_request'')]
     = Inl (MessageParseError ''Unknown message type: control_request''
              [(''type'', VString ''control_request'')])"
    using ParseMessage_unknown_types[of "[(''type'', VString ''control_request'')]" "(\<lambda>x::int. x)"
        "''control_request''" "[]" VNil "[]" "[]" "[]"]
    by (simp add: str_at_def)
  have c: "ParseMessage (\<lambda>x::int. x) ?d
     = Inr (AssistantMessage [TextBlock ''hi'', ThinkingBlock ''hm'' []] ''m'' None)"
    using ParseMessage_unknown_types[of ?d "(\<lambda>x::int. x)" "[]" "[]" "VMap [(''type'', VString ''image'')]"
        "[VMap [(''type'', VString ''text''), (''text'', VString ''hi'')]]"
        "[VMap [(''type'', VString ''thinking''), (''thinking'', VString ''hm'')]]" ?md]
    by (simp add: str_at_def map_at_def slice_at_def getString_def parseContentBlock_def)
  from a b c show ?thesis by simp
qed

section \<open>The framer reassembles split objects\<close>








section \<open>Inbound permission and hook requests\<close>

lemma map_of_put: "map_of (put k v m) k' = (if k' = k then Some v else map_of m k')"
proof -
  have a: "map_of (filter (\<lambda>kv. fst kv \<noteq> k) m) k' = (if k' = k then None else map_of m k')"
    by (induction m) auto
  show ?thesis
    by (auto simp: put_def map_add_def a split: option.splits)
qed

lemma map_of_del: "map_of (del k m) k' = (if k' = k then None else map_of m k')"
  unfolding del_def by (induction m) auto

text \<open>
  Claim C5. For a \<^verbatim>\<open>can_use_tool\<close> request that reaches the registered permission
  callback: when the callback allows without a modified input, the success response
  written back carries \<^verbatim>\<open>updatedInput\<close>, holding the input that was handed to the
  callback, which is the request's \<^verbatim>\<open>input\<close> whenever that is an object; when the
  callback denies, the response carries the callback's message.
\<close>

theorem permission_allow_echoes_input:
  assumes cb: "canUseTool q = Some callback"
    and req: "map_at msg ''request'' = Some req"
    and sub: "str_at req ''subtype'' = Some ''can_use_tool''"
    and conv: "convert_suggestions
                 (case slice_at req ''permission_suggestions'' of Some xs \<Rightarrow> xs | None \<Rightarrow> [])
               = Some updates"
  shows "(callback (getString req ''tool_name'') (map_at req ''input'') \<lparr>Suggestions = updates\<rparr>
            = Inr (PermissionResultAllow None perms) \<longrightarrow>
          (\<exists>responseData.
             handleControlRequest q msg
               = Some [(''type'', VString ''control_response''),
                       (''response'', VMap [(''subtype'', VString ''success''),
                                            (''request_id'', VString (getString msg ''request_id'')),
                                            (''response'', VMap responseData)])]
             \<and> map_of responseData ''behavior'' = Some (VString ''allow'')
             \<and> map_of responseData ''updatedInput'' = Some (of_map (map_at req ''input''))
             \<and> (\<forall>input. map_of req ''input'' = Some (VMap input) \<longrightarrow>
                   map_of responseData ''updatedInput'' = Some (VMap input))))
       \<and> (callback (getString req ''tool_name'') (map_at req ''input'') \<lparr>Suggestions = updates\<rparr>
            = Inr (PermissionResultDeny message interrupt) \<longrightarrow>
          (\<exists>responseData.
             handleControlRequest q msg
               = Some [(''type'', VString ''control_response''),
                       (''response'', VMap [(''subtype'', VString ''success''),
                                            (''request_id'', VString (getString msg ''request_id'')),
                                            (''response'', VMap responseData)])]
             \<and> map_of responseData ''behavior'' = Some (VString ''deny'')
             \<and> map_of responseData ''message'' = Some (VString message)))"
proof (intro conjI impI)
  assume a: "callback (getString req ''tool_name'') (map_at req ''input'') \<lparr>Suggestions = updates\<rparr>
            = Inr (PermissionResultAllow None perms)"
  let ?rd0 = "put ''updatedInput'' (of_map (map_at req ''input'')) [(''behavior'', VString ''allow'')]"
  let ?rd = "(case perms of
                Some ps \<Rightarrow> put ''updatedPermissions'' (VSlice (map (\<lambda>p. VMap (ToMap p)) ps)) ?rd0
              | None \<Rightarrow> ?rd0)"
  have htp: "handleToolPermission q req = Some (Inr ?rd)"
    using cb conv a by (simp add: handleToolPermission_def Let_def)
  have hcr: "handleControlRequest q msg
        = Some [(''type'', VString ''control_response''),
                (''response'', VMap [(''subtype'', VString ''success''),
                                     (''request_id'', VString (getString msg ''request_id'')),
                                     (''response'', VMap ?rd)])]"
    using req sub htp
    by (simp add: handleControlRequest_def Let_def or_nil_def getString_def control_response_def)
  have b: "map_of ?rd ''behavior'' = Some (VString ''allow'')"
    by (cases perms) (simp_all add: map_of_put)
  have u: "map_of ?rd ''updatedInput'' = Some (of_map (map_at req ''input''))"
    by (cases perms) (simp_all add: map_of_put)
  have e: "\<forall>input. map_of req ''input'' = Some (VMap input) \<longrightarrow>
                   map_of ?rd ''updatedInput'' = Some (VMap input)"
    using u by (auto simp: map_at_def of_map_def)
  from hcr b u e
  show "\<exists>responseData.
             handleControlRequest q msg
               = Some [(''type'', VString ''control_response''),
                       (''response'', VMap [(''subtype'', VString ''success''),
                                            (''request_id'', VString (getString msg ''request_id'')),
                                            (''response'', VMap responseData)])]
             \<and> map_of responseData ''behavior'' = Some (VString ''allow'')
             \<and> map_of responseData ''updatedInput'' = Some (of_map (map_at req ''input''))
             \<and> (\<forall>input. map_of req ''input'' = Some (VMap input) \<longrightarrow>
                   map_of responseData ''updatedInput'' = Some (VMap input))"
    by blast
next
  assume a: "callback (getString req ''tool_name'') (map_at req ''input'') \<lparr>Suggestions = updates\<rparr>
            = Inr (PermissionResultDeny message interrupt)"
  let ?rd0 = "[(''behavior'', VString ''deny''), (''message'', VString message)]"
  let ?rd = "(if interrupt then put ''interrupt'' (VBool True) ?rd0 else ?rd0)"
  have htp: "handleToolPermission q req = Some (Inr ?rd)"
    using cb conv a by (simp add: handleToolPermission_def Let_def)
  have hcr: "handleControlRequest q msg
        = Some [(''type'', VString ''control_response''),
                (''response'', VMap [(''subtype'', VString ''success''),
                                     (''request_id'', VString (getString msg ''request_id'')),
                                     (''response'', VMap ?rd)])]"
    using req sub htp
    by (simp add: handleControlRequest_def Let_def or_nil_def getString_def control_response_def)
  have b: "map_of ?rd ''behavior'' = Some (VString ''deny'')"
    by (simp add: map_of_put)
  have m: "map_of ?rd ''message'' = Some (VString message)"
    by (simp add: map_of_put)
  from hcr b m
  show "\<exists>responseData.
             handleControlRequest q msg
               = Some [(''type'', VString ''control_response''),
                       (''response'', VMap [(''subtype'', VString ''success''),
                                            (''request_id'', VString (getString msg ''request_id'')),
                                            (''response'', VMap responseData)])]
             \<and> map_of responseData ''behavior'' = Some (VString ''deny'')
             \<and> map_of responseData ''message'' = Some (VString message)"
    by blast
qed


lemma json_decoded_not_ptr:
  assumes "json_decoded (VMap m)"
  shows "strptr_at m k = None"
proof -
  have "\<forall>v. map_of m k = Some v \<longrightarrow> json_decoded v"
    using assms by (induction m) (auto split: if_splits)
  then show ?thesis
    by (auto simp: strptr_at_def split: option.splits any.splits)
qed

text \<open>
  Claim C10. For a \<^verbatim>\<open>hook_callback\<close> request decoded from JSON, the registered callback
  is invoked with a nil tool-use id, whatever the request holds under \<^verbatim>\<open>tool_use_id\<close>:
  no decoded value has the dynamic type \<^verbatim>\<open>*string\<close> that the extraction asserts.
\<close>

theorem hook_callback_tool_use_id_is_nil:
  assumes dec: "json_decoded (VMap req)"
    and cb: "map_of (hookCallbacks q) (getString req ''callback_id'') = Some callback"
    and inp: "parseHookInput (any_at req ''input'') = Inr hookInput"
  shows "handleHookCallback q req
           = (case callback hookInput None of
                Inl err \<Rightarrow> Inl err
              | Inr output \<Rightarrow> Inr (hookOutputToMap output))"
  using cb inp json_decoded_not_ptr[OF dec, of "''tool_use_id''"]
  by (simp add: handleHookCallback_def Let_def)

theorem permission_allow_echoes_input_witness:
  "(\<exists>responseData.
      handleControlRequest
        (NewQuery \<lparr>IsStreamingMode = True,
                    CanUseTool = Some (\<lambda>toolName input c. Inr (PermissionResultAllow None None)),
                    Hooks = None, SDKMCPServers = []\<rparr> :: int Query)
        [(''type'', VString ''control_request''), (''request_id'', VString ''r1''),
         (''request'', VMap [(''subtype'', VString ''can_use_tool''),
                             (''tool_name'', VString ''Bash''),
                             (''input'', VMap [(''command'', VString ''ls'')])])]
        = Some [(''type'', VString ''control_response''),
                (''response'', VMap [(''subtype'', VString ''success''),
                                     (''request_id'', VString ''r1''),
                                     (''response'', VMap responseData)])]
      \<and> map_of responseData ''updatedInput'' = Some (VMap [(''command'', VString ''ls'')]))
   \<and> (\<exists>responseData.
      handleControlRequest
        (NewQuery \<lparr>IsStreamingMode = True,
                    CanUseTool = Some (\<lambda>toolName input c. Inr (PermissionResultDeny ''no'' False)),
                    Hooks = None, SDKMCPServers = []\<rparr> :: int Query)
        [(''type'', VString ''control_request''), (''request_id'', VString ''r1''),
         (''request'', VMap [(''subtype'', VString ''can_use_tool''),
                             (''tool_name'', VString ''Bash''),
                             (''input'', VMap [(''command'', VString ''ls'')])])]
        = Some [(''type'', VString ''control_response''),
                (''response'', VMap [(''subtype'', VString ''success''),
                                     (''request_id'', VString ''r1''),
                                     (''response'', VMap responseData)])]
      \<and> map_of responseData ''message'' = Some (VString ''no''))"
proof -
  let ?req = "[(''subtype'', VString ''can_use_tool''), (''tool_name'', VString ''Bash''),
               (''input'', VMap [(''command'', VString ''ls'')])] :: int gomap"
  let ?msg = "[(''type'', VString ''control_request''), (''request_id'', VString ''r1''),
               (''request'', VMap ?req)]"
  let ?allow = "\<lambda>(toolName::string) (input::int gomap option) (c::ToolPermissionContext).
                  Inr (PermissionResultAllow None None) :: int error + int PermissionResult"
  let ?deny = "\<lambda>(toolName::string) (input::int gomap option) (c::ToolPermissionContext).
                  Inr (PermissionResultDeny ''no'' False) :: int error + int PermissionResult"
  let ?qa = "NewQuery \<lparr>IsStreamingMode = True, CanUseTool = Some ?allow,
                        Hooks = None, SDKMCPServers = []\<rparr>"
  let ?qd = "NewQuery \<lparr>IsStreamingMode = True, CanUseTool = Some ?deny,
                        Hooks = None, SDKMCPServers = []\<rparr>"
  have a: "\<exists>responseData.
      handleControlRequest ?qa ?msg
        = Some [(''type'', VString ''control_response''),
                (''response'', VMap [(''subtype'', VString ''success''),
                                     (''request_id'', VString ''r1''),
                                     (''response'', VMap responseData)])]
      \<and> map_of responseData ''updatedInput'' = Some (VMap [(''command'', VString ''ls'')])"
    using permission_allow_echoes_input[of ?qa ?allow ?msg ?req "[]" None "[]" False]
    by (simp add: NewQuery_def map_at_def str_at_def slice_at_def getString_def) blast
  have d: "\<exists>responseData.
      handleControlRequest ?qd ?msg
        = Some [(''type'', VString ''control_response''),
                (''response'', VMap [(''subtype'', VString ''success''),
                                     (''request_id'', VString ''r1''),
                                     (''response'', VMap responseData)])]
      \<and> map_of responseData ''message'' = Some (VString ''no'')"
    using permission_allow_echoes_input[of ?qd ?deny ?msg ?req "[]" None "''no''" False]
    by (simp add: NewQuery_def map_at_def str_at_def slice_at_def getString_def) blast
  from a d show ?thesis by blast
qed


lemma wrap64_0 [simp]: "wrap64 0 = 0" "wrap64 1 = 1"
  by (simp_all add: wrap64_def)

lemma fmt_d_0: "fmt_d 0 = ''0''"
  by (simp add: fmt_d_def dec.simps digit_char_def)

theorem hook_callback_tool_use_id_is_nil_witness:
  "handleHookCallback
     (NewQuery \<lparr>IsStreamingMode = True, CanUseTool = None,
        Hooks = Some [(''Stop'', [HookMatcher None
          [\<lambda>input toolUseID. Inr (Some \<lparr>Continue = None, SuppressOutput = None,
              StopReason = None, Decision = None, SystemMessage' = None, Reason = toolUseID,
              Async = None, AsyncTimeout = None, HookSpecificOutput = None\<rparr>)] None])],
        SDKMCPServers = []\<rparr> :: int Query)
     [(''subtype'', VString ''hook_callback''), (''callback_id'', VString ''hook_0''),
      (''input'', VMap [(''hook_event_name'', VString ''Stop'')]),
      (''tool_use_id'', VString ''toolu_1'')]
     = Inr []"
proof -
  let ?cb = "\<lambda>(input::int HookInput) (toolUseID::string option).
      Inr (Some \<lparr>Continue = None, SuppressOutput = None,
              StopReason = None, Decision = None, SystemMessage' = None, Reason = toolUseID,
              Async = None, AsyncTimeout = None, HookSpecificOutput = None\<rparr>)
      :: int error + int HookOutput option"
  let ?q = "NewQuery \<lparr>IsStreamingMode = True, CanUseTool = None,
        Hooks = Some [(''Stop'', [HookMatcher None [?cb] None])], SDKMCPServers = []\<rparr>"
  let ?req = "[(''subtype'', VString ''hook_callback''), (''callback_id'', VString ''hook_0''),
      (''input'', VMap [(''hook_event_name'', VString ''Stop'')]),
      (''tool_use_id'', VString ''toolu_1'')] :: int gomap"
  have tbl: "hookCallbacks ?q = [(''hook_0'', ?cb)]"
    by (simp add: NewQuery_def Let_def put_def fmt_d_0)
  have inp: "parseHookInput (any_at ?req ''input'')
      = Inr (StopHookInput (BaseHookInput [] [] [] None) False)"
    by (simp add: parseHookInput_def any_at_def getString_def str_at_def getBool_def bool_at_def)
  show ?thesis
    using hook_callback_tool_use_id_is_nil[of ?req ?q ?cb
        "StopHookInput (BaseHookInput [] [] [] None) False"]
    by (simp add: tbl inp getString_def str_at_def hookOutputToMap_def put_opt_def)
qed

end
